theory Spec2Isabelle
  imports Complex_Main
begin

section \<open>The ingestor service: request validation and hand-off to Kafka\<close>

text \<open>
  The development follows the three modules of the service:
  \<^verbatim>\<open>app/schemas.py\<close> (the request and response models),
  \<^verbatim>\<open>app/config.py\<close> (the settings) and
  \<^verbatim>\<open>app/main.py\<close> (the two routes and the producer they share).
  Strings are lists of characters, one element per character the length bounds count.
\<close>

subsection \<open>JSON values\<close>

text \<open>
  A request body after \<^verbatim>\<open>json.loads\<close>. An object is the list of the items of the
  Python dict it was parsed into, in insertion order; its keys are distinct and
  \<open>map_of\<close> reads a key.
\<close>

datatype json =
    JNull
  | JBool bool
  | JInt int
  | JFloat rat
  | JStr string
  | JArr "json list"
  | JObj "(string \<times> json) list"

subsection \<open>Patterns of string fields\<close>

text \<open>
  The \<^verbatim>\<open>pattern=\<close> constraint of a string field is a regular expression, searched in
  the value (not anchored by the library). The validation core matches it with its own
  engine, in which \<^verbatim>\<open>^\<close> holds only at the start of the whole value and
  \<^verbatim>\<open>$\<close> only at its end. \<open>rmatch r s i\<close> lists the positions where a match of
  \<open>r\<close> that starts at position \<open>i\<close> of \<open>s\<close> can end.
\<close>

datatype regex =
    Eps
  | Chr char
  | Seq regex regex
  | Alt regex regex
  | Bol
  | Eol

fun rmatch :: "regex \<Rightarrow> string \<Rightarrow> nat \<Rightarrow> nat list" where
  "rmatch Eps s i = [i]"
| "rmatch (Chr c) s i = (if i < length s \<and> s ! i = c then [Suc i] else [])"
| "rmatch (Seq a b) s i = concat (map (rmatch b s) (rmatch a s i))"
| "rmatch (Alt a b) s i = rmatch a s i @ rmatch b s i"
| "rmatch Bol s i = (if i = 0 then [i] else [])"
| "rmatch Eol s i = (if i = length s then [i] else [])"

definition is_match :: "regex \<Rightarrow> string \<Rightarrow> bool" where
  "is_match r s = list_ex (\<lambda>i. rmatch r s i \<noteq> []) [0..<Suc (length s)]"

fun word :: "string \<Rightarrow> regex" where
  "word [] = Eps"
| "word (c # cs) = Seq (Chr c) (word cs)"

text \<open>The pattern of \<^verbatim>\<open>level\<close>: \<^verbatim>\<open>^(DEBUG|INFO|WARNING|ERROR|CRITICAL)$\<close>.\<close>

definition level_pattern :: regex where
  "level_pattern =
     Seq Bol
       (Seq (Alt (word ''DEBUG'')
              (Alt (word ''INFO'')
                (Alt (word ''WARNING'')
                  (Alt (word ''ERROR'') (word ''CRITICAL'')))))
            Eol)"

subsection \<open>Timestamps\<close>

text \<open>
  A Python \<^verbatim>\<open>datetime\<close>. \<open>tzinfo\<close> is the offset from UTC in seconds, \<open>None\<close> for a
  naive value.
\<close>

record datetime =
  year :: nat
  month :: nat
  day :: nat
  hour :: nat
  minute :: nat
  second :: nat
  microsecond :: nat
  tzinfo :: "int option"

text \<open>\<open>fmt_d w n\<close> is Python's \<^verbatim>\<open>"%0wd" % n\<close> for a natural number.\<close>

definition digit :: "nat \<Rightarrow> char" where
  "digit n = ''0123456789'' ! (n mod 10)"

fun dec :: "nat \<Rightarrow> string" where
  "dec n = (if n < 10 then [digit n] else dec (n div 10) @ [digit n])"

declare dec.simps [simp del]

definition fmt_d :: "nat \<Rightarrow> nat \<Rightarrow> string" where
  "fmt_d w n = replicate (w - length (dec n)) (CHR ''0'') @ dec n"

text \<open>
  \<^verbatim>\<open>datetime.isoformat()\<close> with its default separator and time precision: the
  microseconds are printed only when they are not zero, the offset as a sign and
  \<^verbatim>\<open>HH:MM\<close>, followed by the seconds when the offset has any.
\<close>

definition format_time :: "datetime \<Rightarrow> string" where
  "format_time d =
     fmt_d 2 (hour d) @ '':'' @ fmt_d 2 (minute d) @ '':'' @ fmt_d 2 (second d) @
     (if microsecond d \<noteq> 0 then ''.'' @ fmt_d 6 (microsecond d) else [])"

definition format_offset :: "int option \<Rightarrow> string" where
  "format_offset off =
     (case off of
        None \<Rightarrow> []
      | Some x \<Rightarrow>
          (let sign = (if x < 0 then ''-'' else ''+'');
               a = nat \<bar>x\<bar>;
               hh = a div 3600;
               mm = (a mod 3600) div 60;
               ss = a mod 60
           in sign @ fmt_d 2 hh @ '':'' @ fmt_d 2 mm @
              (if ss \<noteq> 0 then '':'' @ fmt_d 2 ss else [])))"

definition isoformat :: "datetime \<Rightarrow> string" where
  "isoformat d =
     fmt_d 4 (year d) @ ''-'' @ fmt_d 2 (month d) @ ''-'' @ fmt_d 2 (day d) @ ''T'' @
     format_time d @ format_offset (tzinfo d)"

text \<open>
  The rendering of a timestamp by \<^verbatim>\<open>model_dump(mode='json')\<close>: as above, except that
  the offset zero is written \<^verbatim>\<open>Z\<close>.
\<close>

definition ser_datetime :: "datetime \<Rightarrow> string" where
  "ser_datetime d =
     fmt_d 4 (year d) @ ''-'' @ fmt_d 2 (month d) @ ''-'' @ fmt_d 2 (day d) @ ''T'' @
     format_time d @ (if tzinfo d = Some 0 then ''Z'' else format_offset (tzinfo d))"

text \<open>
  The field type \<^verbatim>\<open>datetime\<close> is validated by the library, whose grammar of accepted
  inputs is not part of the service. The validator is therefore a parameter of the
  schema: a function from the JSON value of the field to the timestamp it denotes, or
  \<open>None\<close> when the value is rejected.
\<close>

type_synonym datetime_validator = "json \<Rightarrow> datetime option"

text \<open>
  One instance, used on concrete requests: the strings of the form
  \<^verbatim>\<open>YYYY-MM-DDTHH:MM:SS\<close> followed by nothing, by \<^verbatim>\<open>Z\<close> or by an offset
  \<^verbatim>\<open>+HH:MM\<close> or \<^verbatim>\<open>-HH:MM\<close>, each read as the timestamp it writes. The library
  accepts these strings and more; the instance rejects the rest.
\<close>

definition digit_val :: "char \<Rightarrow> nat option" where
  "digit_val c =
     map_of [(CHR ''0'', 0), (CHR ''1'', 1), (CHR ''2'', 2), (CHR ''3'', 3), (CHR ''4'', 4),
             (CHR ''5'', 5), (CHR ''6'', 6), (CHR ''7'', 7), (CHR ''8'', 8), (CHR ''9'', 9)] c"

fun num :: "nat \<Rightarrow> string \<Rightarrow> nat option" where
  "num a [] = Some a"
| "num a (c # cs) = (case digit_val c of None \<Rightarrow> None | Some d \<Rightarrow> num (10 * a + d) cs)"

definition days_in_month :: "nat \<Rightarrow> nat \<Rightarrow> nat" where
  "days_in_month y m =
     (if m = 2 then (if y mod 4 = 0 \<and> (y mod 100 \<noteq> 0 \<or> y mod 400 = 0) then 29 else 28)
      else if m = 4 \<or> m = 6 \<or> m = 9 \<or> m = 11 then 30
      else 31)"

definition parse_offset :: "string \<Rightarrow> int option option" where
  "parse_offset s =
     (if s = [] then Some None
      else if s = ''Z'' then Some (Some 0)
      else if length s = 6 \<and> (s ! 0 = CHR ''+'' \<or> s ! 0 = CHR ''-'') \<and> s ! 3 = CHR '':'' then
        (case (num 0 (take 2 (drop 1 s)), num 0 (drop 4 s)) of
           (Some h, Some m) \<Rightarrow>
             if h < 24 \<and> m < 60
             then Some (Some ((if s ! 0 = CHR ''-'' then - 1 else 1) * int (h * 3600 + m * 60)))
             else None
         | _ \<Rightarrow> None)
      else None)"

definition parse_datetime :: "string \<Rightarrow> datetime option" where
  "parse_datetime s =
     (if 19 \<le> length s \<and> s ! 4 = CHR ''-'' \<and> s ! 7 = CHR ''-'' \<and> s ! 10 = CHR ''T'' \<and>
         s ! 13 = CHR '':'' \<and> s ! 16 = CHR '':'' then
        (case (num 0 (take 4 s), num 0 (take 2 (drop 5 s)), num 0 (take 2 (drop 8 s)),
               num 0 (take 2 (drop 11 s)), num 0 (take 2 (drop 14 s)),
               num 0 (take 2 (drop 17 s)), parse_offset (drop 19 s)) of
           (Some y, Some mo, Some d, Some h, Some mi, Some se, Some tz) \<Rightarrow>
             if 1 \<le> y \<and> 1 \<le> mo \<and> mo \<le> 12 \<and> 1 \<le> d \<and> d \<le> days_in_month y mo \<and>
                h < 24 \<and> mi < 60 \<and> se < 60
             then Some \<lparr>year = y, month = mo, day = d, hour = h, minute = mi, second = se,
                        microsecond = 0, tzinfo = tz\<rparr>
             else None
         | _ \<Rightarrow> None)
      else None)"

definition iso_datetime :: datetime_validator where
  "iso_datetime j = (case j of JStr s \<Rightarrow> parse_datetime s | _ \<Rightarrow> None)"

subsection \<open>The request model \<^verbatim>\<open>LogCreate\<close>\<close>

record LogCreate =
  timestamp :: datetime
  source :: string
  level :: string
  message :: string
  metadata :: "(string \<times> json) list option"

text \<open>
  The kinds of error of the validation, and an error with the place it is reported at
  (\<^verbatim>\<open>body\<close>, then the field). Every rejection of a timestamp is \<open>datetime_invalid\<close>.
\<close>

datatype error_type =
    missing
  | model_attributes_type
  | datetime_invalid
  | string_type
  | string_too_short
  | string_too_long
  | string_pattern_mismatch
  | dict_type

type_synonym validation_error = "string list \<times> error_type"

text \<open>A field declared with \<^verbatim>\<open>Field(...)\<close> is required: its absence is an error.\<close>

definition required :: "(json \<Rightarrow> error_type + 'a) \<Rightarrow> json option \<Rightarrow> error_type + 'a" where
  "required v x = (case x of None \<Rightarrow> Inl missing | Some j \<Rightarrow> v j)"

definition validate_datetime :: "datetime_validator \<Rightarrow> json \<Rightarrow> error_type + datetime" where
  "validate_datetime dtv j = (case dtv j of None \<Rightarrow> Inl datetime_invalid | Some d \<Rightarrow> Inr d)"

text \<open>
  A field of type \<^verbatim>\<open>str\<close> accepts JSON strings only; the constraints are checked in
  the order minimum length, maximum length, pattern.
\<close>

definition validate_str ::
  "nat option \<Rightarrow> nat option \<Rightarrow> regex option \<Rightarrow> json \<Rightarrow> error_type + string" where
  "validate_str min_length max_length pattern j =
     (case j of
        JStr s \<Rightarrow>
          if (case min_length of Some n \<Rightarrow> length s < n | None \<Rightarrow> False) then Inl string_too_short
          else if (case max_length of Some n \<Rightarrow> n < length s | None \<Rightarrow> False) then Inl string_too_long
          else if (case pattern of Some r \<Rightarrow> \<not> is_match r s | None \<Rightarrow> False)
            then Inl string_pattern_mismatch
          else Inr s
      | _ \<Rightarrow> Inl string_type)"

text \<open>
  \<^verbatim>\<open>Optional[Dict[str, Any]]\<close>: \<^verbatim>\<open>null\<close> is accepted and kept as \<^verbatim>\<open>None\<close>; any other
  value must be an object, whose keys are strings by construction and whose values are
  unconstrained.
\<close>

definition validate_optional_dict :: "json \<Rightarrow> error_type + (string \<times> json) list option" where
  "validate_optional_dict j =
     (case j of
        JNull \<Rightarrow> Inr None
      | JObj kvs \<Rightarrow> Inr (Some kvs)
      | _ \<Rightarrow> Inl dict_type)"

definition field_timestamp :: "datetime_validator \<Rightarrow> (string \<times> json) list \<Rightarrow> error_type + datetime" where
  "field_timestamp dtv fs = required (validate_datetime dtv) (map_of fs ''timestamp'')"

definition field_source :: "(string \<times> json) list \<Rightarrow> error_type + string" where
  "field_source fs = required (validate_str (Some 1) (Some 255) None) (map_of fs ''source'')"

definition field_level :: "(string \<times> json) list \<Rightarrow> error_type + string" where
  "field_level fs = required (validate_str None None (Some level_pattern)) (map_of fs ''level'')"

definition field_message :: "(string \<times> json) list \<Rightarrow> error_type + string" where
  "field_message fs = required (validate_str (Some 1) (Some 10000) None) (map_of fs ''message'')"

text \<open>\<^verbatim>\<open>metadata\<close> has \<^verbatim>\<open>default_factory=dict\<close>: when absent it is the empty dict.\<close>

definition field_metadata :: "(string \<times> json) list \<Rightarrow> error_type + (string \<times> json) list option" where
  "field_metadata fs =
     (case map_of fs ''metadata'' of
        None \<Rightarrow> Inr (Some [])
      | Some j \<Rightarrow> validate_optional_dict j)"

definition field_errors :: "string \<Rightarrow> error_type + 'a \<Rightarrow> validation_error list" where
  "field_errors name r = (case r of Inl e \<Rightarrow> [([''body'', name], e)] | Inr _ \<Rightarrow> [])"

text \<open>
  Validation of a request body against \<^verbatim>\<open>LogCreate\<close>: every field is validated, the
  errors of all fields are collected, and the model is built when there is none. Keys
  of the body that are not fields are ignored.
\<close>

definition LogCreate_validate :: "datetime_validator \<Rightarrow> json \<Rightarrow> validation_error list + LogCreate" where
  "LogCreate_validate dtv body =
     (case body of
        JObj fs \<Rightarrow>
          (let ts = field_timestamp dtv fs;
               so = field_source fs;
               lv = field_level fs;
               ms = field_message fs;
               md = field_metadata fs;
               errors = field_errors ''timestamp'' ts @ field_errors ''source'' so @
                        field_errors ''level'' lv @ field_errors ''message'' ms @
                        field_errors ''metadata'' md
           in case (ts, so, lv, ms, md) of
                (Inr t, Inr s, Inr l, Inr m, Inr d) \<Rightarrow>
                  Inr \<lparr>timestamp = t, source = s, level = l, message = m, metadata = d\<rparr>
              | _ \<Rightarrow> Inl errors)
      | _ \<Rightarrow> Inl [([''body''], model_attributes_type)])"

text \<open>
  \<^verbatim>\<open>model_dump(mode='json')\<close>: the fields in the order of their declaration, as JSON
  values.
\<close>

definition model_dump :: "LogCreate \<Rightarrow> (string \<times> json) list" where
  "model_dump e =
     [(''timestamp'', JStr (ser_datetime (timestamp e))),
      (''source'', JStr (source e)),
      (''level'', JStr (level e)),
      (''message'', JStr (message e)),
      (''metadata'', (case metadata e of None \<Rightarrow> JNull | Some kvs \<Rightarrow> JObj kvs))]"

text \<open>Assignment to a key of a dict: an existing key keeps its place.\<close>

fun dict_set :: "string \<Rightarrow> json \<Rightarrow> (string \<times> json) list \<Rightarrow> (string \<times> json) list" where
  "dict_set k v [] = [(k, v)]"
| "dict_set k v ((k', v') # kvs) =
     (if k' = k then (k, v) # kvs else (k', v') # dict_set k v kvs)"

text \<open>
  The response model \<^verbatim>\<open>LogResponse\<close>, as the JSON object the route returns for it
  (\<^verbatim>\<open>response_model=LogResponse\<close>).
\<close>

definition LogResponse :: "string \<Rightarrow> string \<Rightarrow> json" where
  "LogResponse s m = JObj [(''status'', JStr s), (''message'', JStr m)]"

subsection \<open>Settings\<close>

record Settings =
  kafka_bootstrap_servers :: string
  logs_topic :: string
  app_name :: string
  app_version :: string

definition default_settings :: Settings where
  "default_settings =
     \<lparr>kafka_bootstrap_servers = ''kafka:9092'',
      logs_topic = ''logs-raw'',
      app_name = ''NetSentinel Ingestor'',
      app_version = ''1.0.0''\<rparr>"

subsection \<open>The application\<close>

text \<open>
  The producer is known by the one method the routes call: \<^verbatim>\<open>send_and_wait\<close> returns
  when the broker has acknowledged the record, or raises. \<open>KafkaError\<close> carries the text
  \<^verbatim>\<open>str(e)\<close> of the client's error; \<open>OtherException\<close> is any other exception.
\<close>

datatype send_outcome = Acked | KafkaError string | OtherException

record producer =
  send_and_wait :: "string \<Rightarrow> json \<Rightarrow> send_outcome"

text \<open>
  The state a request runs in: the global \<^verbatim>\<open>kafka_producer\<close> (\<open>None\<close> when the
  start-up could not connect) and the calls of \<^verbatim>\<open>send_and_wait\<close> made so far, each with
  its topic and value, oldest first.
\<close>

record app_state =
  kafka_producer :: "producer option"
  broker_calls :: "(string \<times> json) list"

datatype response_content = JSON json | RequestValidationError "validation_error list"

record response =
  status_code :: nat
  content :: response_content

text \<open>A raised \<^verbatim>\<open>HTTPException\<close> is answered with its status and its detail.\<close>

definition HTTPException :: "nat \<Rightarrow> string \<Rightarrow> response" where
  "HTTPException code detail =
     \<lparr>status_code = code, content = JSON (JObj [(''detail'', JStr detail)])\<rparr>"

definition health_check :: "Settings \<Rightarrow> app_state \<Rightarrow> (string \<times> json) list" where
  "health_check settings st =
     (let kafka_status = (if kafka_producer st \<noteq> None then ''connected'' else ''disconnected'')
      in [(''status'', JStr ''healthy''),
          (''service'', JStr (app_name settings)),
          (''version'', JStr (app_version settings)),
          (''kafka'', JStr kafka_status)])"

text \<open>\<^verbatim>\<open>GET /health\<close>, declared with \<^verbatim>\<open>status_code=200\<close>.\<close>

definition get_health :: "Settings \<Rightarrow> app_state \<Rightarrow> response" where
  "get_health settings st = \<lparr>status_code = 200, content = JSON (JObj (health_check settings st))\<rparr>"

text \<open>The value handed to the producer: the dump of the entry with its timestamp replaced.\<close>

definition log_data_of :: "LogCreate \<Rightarrow> (string \<times> json) list" where
  "log_data_of log_entry =
     (let log_data = model_dump log_entry
      in if ''timestamp'' \<in> set (map fst log_data)
         then dict_set ''timestamp'' (JStr (isoformat (timestamp log_entry))) log_data
         else log_data)"

definition ingest_log :: "Settings \<Rightarrow> app_state \<Rightarrow> LogCreate \<Rightarrow> app_state \<times> response" where
  "ingest_log settings st log_entry =
     (case kafka_producer st of
        None \<Rightarrow>
          (st, HTTPException 503
                 ''Log ingestion service is temporarily unavailable. Kafka is not connected.'')
      | Some p \<Rightarrow>
          (let log_data = JObj (log_data_of log_entry);
               st' = st\<lparr>broker_calls := broker_calls st @ [(logs_topic settings, log_data)]\<rparr>
           in case send_and_wait p (logs_topic settings) log_data of
                Acked \<Rightarrow>
                  (st', \<lparr>status_code = 202,
                         content = JSON (LogResponse ''accepted'' ''Log queued for processing'')\<rparr>)
              | KafkaError e \<Rightarrow>
                  (st', HTTPException 503 (''Failed to queue log for processing: '' @ e))
              | OtherException \<Rightarrow>
                  (st', HTTPException 500
                          ''An unexpected error occurred while processing the log'')))"

text \<open>
  \<^verbatim>\<open>POST /api/v1/logs/ingest\<close>: the body is validated against the type of the handler's
  parameter before the handler is called. A body that is absent or \<^verbatim>\<open>null\<close> is reported
  as missing by the framework itself; any other body is validated as a \<^verbatim>\<open>LogCreate\<close>.
\<close>

definition validate_body :: "datetime_validator \<Rightarrow> json \<Rightarrow> validation_error list + LogCreate" where
  "validate_body dtv body =
     (case body of
        JNull \<Rightarrow> Inl [([''body''], missing)]
      | _ \<Rightarrow> LogCreate_validate dtv body)"

text \<open>
  A body that fails is answered with status 422 and the errors; the handler runs only
  on a model.
\<close>

definition post_logs_ingest ::
  "datetime_validator \<Rightarrow> Settings \<Rightarrow> app_state \<Rightarrow> json \<Rightarrow> app_state \<times> response" where
  "post_logs_ingest dtv settings st body =
     (case validate_body dtv body of
        Inl errors \<Rightarrow> (st, \<lparr>status_code = 422, content = RequestValidationError errors\<rparr>)
      | Inr log_entry \<Rightarrow> ingest_log settings st log_entry)"

subsection \<open>The example request of the schema\<close>

definition example_body :: json where
  "example_body =
     JObj [(''timestamp'', JStr ''2025-12-11T10:30:00Z''),
           (''source'', JStr ''web-api''),
           (''level'', JStr ''ERROR''),
           (''message'', JStr ''Database connection timeout''),
           (''metadata'', JObj [(''user_id'', JStr ''12345''),
                                (''endpoint'', JStr ''/api/users''),
                                (''duration_ms'', JInt 5000)])]"

definition acking_producer :: producer where
  "acking_producer = \<lparr>send_and_wait = (\<lambda>topic v. Acked)\<rparr>"

definition failing_producer :: "string \<Rightarrow> producer" where
  "failing_producer e = \<lparr>send_and_wait = (\<lambda>topic v. KafkaError e)\<rparr>"

definition connected :: "producer \<Rightarrow> app_state" where
  "connected p = \<lparr>kafka_producer = Some p, broker_calls = []\<rparr>"

definition disconnected :: app_state where
  "disconnected = \<lparr>kafka_producer = None, broker_calls = []\<rparr>"

definition example_timestamp :: datetime where
  "example_timestamp =
     \<lparr>year = 2025, month = 12, day = 11, hour = 10, minute = 30, second = 0,
      microsecond = 0, tzinfo = Some 0\<rparr>"

text \<open>A request without \<^verbatim>\<open>metadata\<close>, valid but for its message.\<close>

definition with_message :: "string \<Rightarrow> (string \<times> json) list" where
  "with_message m =
     [(''timestamp'', JStr ''2025-12-11T10:30:00Z''),
      (''source'', JStr ''web-api''),
      (''level'', JStr ''ERROR''),
      (''message'', JStr m)]"

subsection \<open>Matching a literal word\<close>

lemma rmatch_word:
  "i \<le> length s \<Longrightarrow>
   rmatch (word w) s i =
     (if take (length w) (drop i s) = w then [i + length w] else [])"
proof (induction w arbitrary: i)
  case Nil
  show ?case by simp
next
  case (Cons c cs)
  show ?case
  proof (cases "i < length s")
    case True
    then have d: "drop i s = s ! i # drop (Suc i) s"
      by (metis Cons_nth_drop_Suc)
    from True have "Suc i \<le> length s" by simp
    from Cons.IH [OF this] True show ?thesis
      by (simp add: d)
  next
    case False
    then show ?thesis by simp
  qed
qed

lemma rmatch_word_Eol:
  "rmatch (Seq (word w) Eol) s 0 = (if s = w then [length w] else [])"
proof (cases "s = w")
  case True
  then show ?thesis by (simp add: rmatch_word)
next
  case False
  show ?thesis
  proof (cases "length w = length s")
    case True
    then have "take (length w) s = s" by simp
    with False have "take (length w) s \<noteq> w" by simp
    with False show ?thesis by (simp add: rmatch_word)
  next
    case False
    with \<open>s \<noteq> w\<close> show ?thesis by (simp add: rmatch_word)
  qed
qed

lemma rmatch_Seq_Alt:
  "rmatch (Seq (Alt a b) c) s i = rmatch (Seq a c) s i @ rmatch (Seq b c) s i"
  by simp

lemma rmatch_Bol:
  "rmatch (Seq Bol r) s i = (if i = 0 then rmatch r s 0 else [])"
  by simp

lemma is_match_Bol:
  "is_match (Seq Bol r) s \<longleftrightarrow> rmatch r s 0 \<noteq> []"
proof
  assume "is_match (Seq Bol r) s"
  then obtain i where "rmatch (Seq Bol r) s i \<noteq> []"
    unfolding is_match_def list_ex_iff by blast
  then show "rmatch r s 0 \<noteq> []"
    unfolding rmatch_Bol by (simp split: if_splits)
next
  assume "rmatch r s 0 \<noteq> []"
  then have "rmatch (Seq Bol r) s 0 \<noteq> []"
    unfolding rmatch_Bol by simp
  moreover have "0 \<in> set [0..<Suc (length s)]" by simp
  ultimately show "is_match (Seq Bol r) s"
    unfolding is_match_def list_ex_iff by blast
qed

lemma is_match_level_pattern:
  "is_match level_pattern s \<longleftrightarrow>
     s \<in> {''DEBUG'', ''INFO'', ''WARNING'', ''ERROR'', ''CRITICAL''}"
  unfolding level_pattern_def is_match_Bol rmatch_Seq_Alt rmatch_word_Eol
  by auto

subsection \<open>What each field accepts\<close>

lemma validate_str_level:
  "validate_str None None (Some level_pattern) j = Inr l \<longleftrightarrow>
     j = JStr l \<and> l \<in> {''DEBUG'', ''INFO'', ''WARNING'', ''ERROR'', ''CRITICAL''}"
  by (cases j) (auto simp: validate_str_def is_match_level_pattern)

lemma validate_str_bounds:
  "validate_str (Some lo) (Some hi) None j = Inr x \<longleftrightarrow>
     j = JStr x \<and> lo \<le> length x \<and> length x \<le> hi"
  by (cases j) (auto simp: validate_str_def)

lemma required_Inr:
  "required v x = Inr y \<longleftrightarrow> (\<exists>j. x = Some j \<and> v j = Inr y)"
  by (cases x) (auto simp: required_def)

lemma field_level_Inr:
  "field_level fs = Inr l \<longleftrightarrow>
     map_of fs ''level'' = Some (JStr l) \<and>
     l \<in> {''DEBUG'', ''INFO'', ''WARNING'', ''ERROR'', ''CRITICAL''}"
  unfolding field_level_def required_Inr validate_str_level by auto

lemma field_message_Inr:
  "field_message fs = Inr m \<longleftrightarrow>
     map_of fs ''message'' = Some (JStr m) \<and> 1 \<le> length m \<and> length m \<le> 10000"
  unfolding field_message_def required_Inr validate_str_bounds by auto

lemma field_source_Inr:
  "field_source fs = Inr x \<longleftrightarrow>
     map_of fs ''source'' = Some (JStr x) \<and> 1 \<le> length x \<and> length x \<le> 255"
  unfolding field_source_def required_Inr validate_str_bounds by auto

lemma field_timestamp_Inr:
  "field_timestamp dtv fs = Inr t \<longleftrightarrow>
     (\<exists>j. map_of fs ''timestamp'' = Some j \<and> dtv j = Some t)"
  unfolding field_timestamp_def required_Inr
  by (auto simp: validate_datetime_def split: option.splits)

lemma validate_optional_dict_Inr:
  "validate_optional_dict j = Inr d \<longleftrightarrow>
     (j = JNull \<and> d = None) \<or> (\<exists>kvs. j = JObj kvs \<and> d = Some kvs)"
  by (cases j) (auto simp: validate_optional_dict_def)

lemma field_metadata_Inr:
  "field_metadata fs = Inr d \<longleftrightarrow>
     (map_of fs ''metadata'' = None \<and> d = Some []) \<or>
     (map_of fs ''metadata'' = Some JNull \<and> d = None) \<or>
     (\<exists>kvs. map_of fs ''metadata'' = Some (JObj kvs) \<and> d = Some kvs)"
  by (auto simp: field_metadata_def validate_optional_dict_Inr split: option.splits)

subsection \<open>What the model accepts\<close>

lemma LogCreate_validate_Inr:
  "LogCreate_validate dtv (JObj fs) = Inr e \<longleftrightarrow>
     field_timestamp dtv fs = Inr (timestamp e) \<and>
     field_source fs = Inr (source e) \<and>
     field_level fs = Inr (level e) \<and>
     field_message fs = Inr (message e) \<and>
     field_metadata fs = Inr (metadata e)"
  by (cases e) (auto simp: LogCreate_validate_def Let_def split: sum.splits)

lemma LogCreate_validate_valid:
  assumes "field_timestamp dtv fs = Inr t" "field_source fs = Inr s" "field_level fs = Inr l"
    "field_message fs = Inr m" "field_metadata fs = Inr d"
  shows "LogCreate_validate dtv (JObj fs) =
           Inr \<lparr>timestamp = t, source = s, level = l, message = m, metadata = d\<rparr>"
  using assms by (simp add: LogCreate_validate_Inr)

lemma LogCreate_validate_Inl:
  "LogCreate_validate dtv (JObj fs) = Inl errors \<Longrightarrow> errors \<noteq> []"
  by (auto simp: LogCreate_validate_def Let_def field_errors_def split: sum.splits)

lemma LogCreate_validate_isl:
  "isl (LogCreate_validate dtv (JObj fs)) \<longleftrightarrow>
     isl (field_timestamp dtv fs) \<or> isl (field_source fs) \<or> isl (field_level fs) \<or>
     isl (field_message fs) \<or> isl (field_metadata fs)"
  by (auto simp: LogCreate_validate_def Let_def split: sum.splits)

lemma validate_body_Inr:
  "LogCreate_validate dtv body = Inr e \<Longrightarrow> validate_body dtv body = Inr e"
  by (cases body) (simp_all add: validate_body_def LogCreate_validate_def)

lemma validate_body_JObj: "validate_body dtv (JObj fs) = LogCreate_validate dtv (JObj fs)"
  by (simp add: validate_body_def)

lemma validate_body_not_object:
  assumes "\<And>fs. body \<noteq> JObj fs"
  shows "\<exists>errors. errors \<noteq> [] \<and> validate_body dtv body = Inl errors"
proof (cases body)
  case (JObj fs)
  with assms show ?thesis by blast
qed (simp_all add: validate_body_def LogCreate_validate_def)

lemma field_message_JStr:
  "map_of fs ''message'' = Some (JStr m) \<Longrightarrow>
   field_message fs =
     (if length m < 1 then Inl string_too_short
      else if 10000 < length m then Inl string_too_long
      else Inr m)"
  by (simp add: field_message_def required_def validate_str_def)

lemma LogCreate_validate_message_error:
  assumes "field_timestamp dtv fs = Inr t" "field_source fs = Inr s" "field_level fs = Inr l"
    "field_metadata fs = Inr d" "field_message fs = Inl err"
  shows "LogCreate_validate dtv (JObj fs) = Inl [([''body'', ''message''], err)]"
  using assms by (simp add: LogCreate_validate_def field_errors_def)

lemma LogCreate_validate_metadata_error:
  assumes "field_metadata fs = Inl err"
  shows "\<exists>errors. LogCreate_validate dtv (JObj fs) = Inl (errors @ [([''body'', ''metadata''], err)])"
  using assms by (simp add: LogCreate_validate_def field_errors_def Let_def split: sum.splits)

lemma log_data_of_eq:
  "log_data_of e =
     [(''timestamp'', JStr (isoformat (timestamp e))),
      (''source'', JStr (source e)),
      (''level'', JStr (level e)),
      (''message'', JStr (message e)),
      (''metadata'', (case metadata e of None \<Rightarrow> JNull | Some kvs \<Rightarrow> JObj kvs))]"
  by (simp add: log_data_of_def model_dump_def)

subsection \<open>Concrete requests\<close>

lemma iso_datetime_example:
  "iso_datetime (JStr ''2025-12-11T10:30:00Z'') = Some example_timestamp"
  by code_simp

lemma isoformat_example: "isoformat example_timestamp = ''2025-12-11T10:30:00+00:00''"
  by code_simp

lemma example_body_valid:
  "LogCreate_validate iso_datetime example_body =
     Inr \<lparr>timestamp = example_timestamp,
          source = ''web-api'', level = ''ERROR'',
          message = ''Database connection timeout'',
          metadata = Some [(''user_id'', JStr ''12345''), (''endpoint'', JStr ''/api/users''),
                           (''duration_ms'', JInt 5000)]\<rparr>"
  by code_simp

lemma with_message_fields:
  "field_timestamp iso_datetime (with_message m) = Inr example_timestamp"
  "field_source (with_message m) = Inr ''web-api''"
  "field_level (with_message m) = Inr ''ERROR''"
  "field_metadata (with_message m) = Inr (Some [])"
  "map_of (with_message m) ''message'' = Some (JStr m)"
  by (simp_all add: field_timestamp_Inr field_source_Inr field_level_Inr field_metadata_Inr
        with_message_def iso_datetime_example)

section \<open>Properties of the routes\<close>

subsection \<open>Rejected requests\<close>

text \<open>
  C1. A body that is not an object (absent and \<^verbatim>\<open>null\<close> included), or in which a
  field fails (a required field is absent, the timestamp is rejected, a length bound or
  the pattern of the level is violated, the metadata is neither an object nor null), is
  answered with status 422 and the list of errors, which is not empty. The state is
  returned as it was: the producer has not been called.
\<close>

theorem ingest_rejects_invalid_body:
  assumes "case body of
             JObj fs \<Rightarrow> isl (field_timestamp dtv fs) \<or> isl (field_source fs) \<or>
                        isl (field_level fs) \<or> isl (field_message fs) \<or>
                        isl (field_metadata fs)
           | _ \<Rightarrow> True"
  shows "\<exists>errors. errors \<noteq> [] \<and>
           post_logs_ingest dtv settings st body =
             (st, \<lparr>status_code = 422, content = RequestValidationError errors\<rparr>)"
proof (cases "\<exists>fs. body = JObj fs")
  case True
  then obtain fs where b: "body = JObj fs" by blast
  with assms have "isl (LogCreate_validate dtv (JObj fs))"
    by (simp add: LogCreate_validate_isl)
  then obtain errors where e: "LogCreate_validate dtv (JObj fs) = Inl errors"
    by (cases "LogCreate_validate dtv (JObj fs)") auto
  then have "errors \<noteq> []" by (rule LogCreate_validate_Inl)
  with b e show ?thesis by (simp add: post_logs_ingest_def validate_body_JObj)
next
  case False
  then have "\<exists>errors. errors \<noteq> [] \<and> validate_body dtv body = Inl errors"
    by (intro validate_body_not_object) blast
  then show ?thesis by (auto simp: post_logs_ingest_def)
qed

theorem ingest_rejects_invalid_body_witness:
  "post_logs_ingest iso_datetime default_settings (connected acking_producer)
     (JObj [(''timestamp'', JStr ''yesterday''), (''level'', JStr ''TRACE''),
            (''message'', JStr []), (''metadata'', JArr [])]) =
   (connected acking_producer,
    \<lparr>status_code = 422,
     content = RequestValidationError
       [([''body'', ''timestamp''], datetime_invalid), ([''body'', ''source''], missing),
        ([''body'', ''level''], string_pattern_mismatch),
        ([''body'', ''message''], string_too_short),
        ([''body'', ''metadata''], dict_type)]\<rparr>)"
proof -
  let ?body = "JObj [(''timestamp'', JStr ''yesterday''), (''level'', JStr ''TRACE''),
            (''message'', JStr []), (''metadata'', JArr [])]"
  have v: "LogCreate_validate iso_datetime ?body = Inl
       [([''body'', ''timestamp''], datetime_invalid), ([''body'', ''source''], missing),
        ([''body'', ''level''], string_pattern_mismatch),
        ([''body'', ''message''], string_too_short),
        ([''body'', ''metadata''], dict_type)]"
    by code_simp
  have h: "case ?body of
             JObj fs \<Rightarrow> isl (field_timestamp iso_datetime fs) \<or> isl (field_source fs) \<or>
                        isl (field_level fs) \<or> isl (field_message fs) \<or>
                        isl (field_metadata fs)
           | _ \<Rightarrow> True"
    by (simp add: field_source_def required_def)
  from ingest_rejects_invalid_body [OF h, of default_settings "connected acking_producer"]
  show ?thesis by (simp add: post_logs_ingest_def validate_body_JObj v)
qed

subsection \<open>Requests without a producer\<close>

text \<open>
  C2. A valid request that arrives while \<^verbatim>\<open>kafka_producer\<close> is \<open>None\<close> is answered
  with status 503 and the state is returned as it was: no call of the producer is made.
\<close>

theorem ingest_unavailable_without_producer:
  assumes "LogCreate_validate dtv body = Inr log_entry"
    and "kafka_producer st = None"
  shows "post_logs_ingest dtv settings st body =
           (st, \<lparr>status_code = 503,
                 content = JSON (JObj [(''detail'', JStr
                   ''Log ingestion service is temporarily unavailable. Kafka is not connected.'')])\<rparr>)"
  using assms validate_body_Inr [OF assms(1)]
  by (simp add: post_logs_ingest_def ingest_log_def HTTPException_def)

theorem ingest_unavailable_without_producer_witness:
  "post_logs_ingest iso_datetime default_settings disconnected example_body =
           (disconnected, \<lparr>status_code = 503,
                 content = JSON (JObj [(''detail'', JStr
                   ''Log ingestion service is temporarily unavailable. Kafka is not connected.'')])\<rparr>)"
  using ingest_unavailable_without_producer [OF example_body_valid, of disconnected default_settings]
  by (simp add: disconnected_def)

subsection \<open>Requests handed to the producer\<close>

text \<open>
  C3. For a valid request with a producer: when \<^verbatim>\<open>send_and_wait\<close> returns, the answer
  is status 202 with the body \<^verbatim>\<open>{"status": "accepted", "message": "Log queued for processing"}\<close>,
  after exactly one call of the producer; and status 202 is answered only when that
  call has returned.
\<close>

theorem ingest_accepted_on_ack:
  assumes "LogCreate_validate dtv body = Inr log_entry"
    and "kafka_producer st = Some p"
  shows "(send_and_wait p (logs_topic settings) (JObj (log_data_of log_entry)) = Acked \<longrightarrow>
            post_logs_ingest dtv settings st body =
              (st\<lparr>broker_calls :=
                    broker_calls st @ [(logs_topic settings, JObj (log_data_of log_entry))]\<rparr>,
               \<lparr>status_code = 202,
                content = JSON (JObj [(''status'', JStr ''accepted''),
                                      (''message'', JStr ''Log queued for processing'')])\<rparr>)) \<and>
         (status_code (snd (post_logs_ingest dtv settings st body)) = 202 \<longrightarrow>
            send_and_wait p (logs_topic settings) (JObj (log_data_of log_entry)) = Acked \<and>
            broker_calls (fst (post_logs_ingest dtv settings st body)) =
              broker_calls st @ [(logs_topic settings, JObj (log_data_of log_entry))])"
  using assms validate_body_Inr [OF assms(1)]
  by (simp add: post_logs_ingest_def ingest_log_def HTTPException_def LogResponse_def Let_def
           split: send_outcome.splits)

theorem ingest_accepted_on_ack_witness:
  "post_logs_ingest iso_datetime default_settings (connected acking_producer) example_body =
     (\<lparr>kafka_producer = Some acking_producer,
       broker_calls =
         [(''logs-raw'',
           JObj [(''timestamp'', JStr ''2025-12-11T10:30:00+00:00''),
                 (''source'', JStr ''web-api''),
                 (''level'', JStr ''ERROR''),
                 (''message'', JStr ''Database connection timeout''),
                 (''metadata'', JObj [(''user_id'', JStr ''12345''),
                                      (''endpoint'', JStr ''/api/users''),
                                      (''duration_ms'', JInt 5000)])])]\<rparr>,
      \<lparr>status_code = 202,
       content = JSON (JObj [(''status'', JStr ''accepted''),
                             (''message'', JStr ''Log queued for processing'')])\<rparr>)"
  using ingest_accepted_on_ack [OF example_body_valid, of "connected acking_producer"
      acking_producer default_settings]
  by (simp add: connected_def acking_producer_def default_settings_def log_data_of_eq
      isoformat_example)

text \<open>
  C4. For a valid request with a producer whose \<^verbatim>\<open>send_and_wait\<close> raises a
  \<^verbatim>\<open>KafkaError\<close>: the answer is status 503, its detail ends with the text of the error,
  and the producer has been called exactly once.
\<close>

theorem ingest_unavailable_on_kafka_error:
  assumes "LogCreate_validate dtv body = Inr log_entry"
    and "kafka_producer st = Some p"
    and "send_and_wait p (logs_topic settings) (JObj (log_data_of log_entry)) = KafkaError e"
  shows "post_logs_ingest dtv settings st body =
           (st\<lparr>broker_calls :=
                 broker_calls st @ [(logs_topic settings, JObj (log_data_of log_entry))]\<rparr>,
            \<lparr>status_code = 503,
             content = JSON (JObj [(''detail'',
               JStr (''Failed to queue log for processing: '' @ e))])\<rparr>)"
  using assms validate_body_Inr [OF assms(1)]
  by (simp add: post_logs_ingest_def ingest_log_def HTTPException_def Let_def)

theorem ingest_unavailable_on_kafka_error_witness:
  "post_logs_ingest iso_datetime default_settings
     (connected (failing_producer ''NotLeaderForPartitionError'')) example_body =
     (\<lparr>kafka_producer = Some (failing_producer ''NotLeaderForPartitionError''),
       broker_calls =
         [(''logs-raw'',
           JObj [(''timestamp'', JStr ''2025-12-11T10:30:00+00:00''),
                 (''source'', JStr ''web-api''),
                 (''level'', JStr ''ERROR''),
                 (''message'', JStr ''Database connection timeout''),
                 (''metadata'', JObj [(''user_id'', JStr ''12345''),
                                      (''endpoint'', JStr ''/api/users''),
                                      (''duration_ms'', JInt 5000)])])]\<rparr>,
      \<lparr>status_code = 503,
       content = JSON (JObj [(''detail'',
         JStr ''Failed to queue log for processing: NotLeaderForPartitionError'')])\<rparr>)"
  using ingest_unavailable_on_kafka_error [OF example_body_valid,
      of "connected (failing_producer ''NotLeaderForPartitionError'')"
      "failing_producer ''NotLeaderForPartitionError''" default_settings
      "''NotLeaderForPartitionError''"]
  by (simp add: connected_def failing_producer_def default_settings_def log_data_of_eq
      isoformat_example)




subsection \<open>The fields of the request\<close>

text \<open>
  C6. The field \<^verbatim>\<open>level\<close> is accepted exactly when it is one of the strings DEBUG,
  INFO, WARNING, ERROR, CRITICAL. Every accepted request has such a level, and a request
  whose other fields are valid is accepted with each of the five.
\<close>

theorem level_enumeration:
  "(field_level fs = Inr l \<longleftrightarrow>
      map_of fs ''level'' = Some (JStr l) \<and>
      l \<in> {''DEBUG'', ''INFO'', ''WARNING'', ''ERROR'', ''CRITICAL''}) \<and>
   (LogCreate_validate dtv (JObj fs) = Inr e \<longrightarrow>
      map_of fs ''level'' = Some (JStr (level e)) \<and>
      level e \<in> {''DEBUG'', ''INFO'', ''WARNING'', ''ERROR'', ''CRITICAL''}) \<and>
   (field_timestamp dtv fs = Inr t \<and> field_source fs = Inr s \<and> field_message fs = Inr m \<and>
    field_metadata fs = Inr d \<and> map_of fs ''level'' = Some (JStr l) \<and>
    l \<in> {''DEBUG'', ''INFO'', ''WARNING'', ''ERROR'', ''CRITICAL''} \<longrightarrow>
      LogCreate_validate dtv (JObj fs) =
        Inr \<lparr>timestamp = t, source = s, level = l, message = m, metadata = d\<rparr>)"
proof (intro conjI impI)
  show "field_level fs = Inr l \<longleftrightarrow>
      map_of fs ''level'' = Some (JStr l) \<and>
      l \<in> {''DEBUG'', ''INFO'', ''WARNING'', ''ERROR'', ''CRITICAL''}"
    by (rule field_level_Inr)
next
  assume "LogCreate_validate dtv (JObj fs) = Inr e"
  then have "field_level fs = Inr (level e)"
    by (simp add: LogCreate_validate_Inr)
  then show "map_of fs ''level'' = Some (JStr (level e))"
    and "level e \<in> {''DEBUG'', ''INFO'', ''WARNING'', ''ERROR'', ''CRITICAL''}"
    by (simp_all add: field_level_Inr)
next
  assume a: "field_timestamp dtv fs = Inr t \<and> field_source fs = Inr s \<and> field_message fs = Inr m \<and>
    field_metadata fs = Inr d \<and> map_of fs ''level'' = Some (JStr l) \<and>
    l \<in> {''DEBUG'', ''INFO'', ''WARNING'', ''ERROR'', ''CRITICAL''}"
  then have "field_level fs = Inr l"
    by (simp add: field_level_Inr)
  with a show "LogCreate_validate dtv (JObj fs) =
        Inr \<lparr>timestamp = t, source = s, level = l, message = m, metadata = d\<rparr>"
    by (simp add: LogCreate_validate_valid)
qed

theorem level_enumeration_witness:
  "field_level (with_message ''x'') = Inr ''ERROR'' \<and>
   field_level [(''level'', JStr ''error'')] \<noteq> Inr ''error'' \<and>
   field_level [(''level'', JStr (''ERROR'' @ [CHR 0x0A]))] \<noteq> Inr (''ERROR'' @ [CHR 0x0A]) \<and>
   LogCreate_validate iso_datetime (JObj (with_message ''x'')) =
     Inr \<lparr>timestamp = example_timestamp, source = ''web-api'', level = ''ERROR'',
          message = ''x'', metadata = Some []\<rparr>"
  using level_enumeration [of "with_message ''x''" "''ERROR''" iso_datetime
      "\<lparr>timestamp = example_timestamp, source = ''web-api'', level = ''ERROR'',
          message = ''x'', metadata = Some []\<rparr>" example_timestamp "''web-api''" "''x''" "Some []"]
    level_enumeration [of "[(''level'', JStr ''error'')]" "''error''"]
    level_enumeration [of "[(''level'', JStr (''ERROR'' @ [CHR 0x0A]))]" "''ERROR'' @ [CHR 0x0A]"]
    with_message_fields [of "''x''"]
  by (simp add: field_message_Inr)

text \<open>
  C7. In a request whose other fields are valid, a message of length 0 or 10001 is
  rejected (as too short, as too long) and a message of length 1 or 10000 is accepted.
\<close>

theorem message_length_boundaries:
  assumes "field_timestamp dtv fs = Inr t" and "field_source fs = Inr s"
    and "field_level fs = Inr l" and "field_metadata fs = Inr d"
    and "map_of fs ''message'' = Some (JStr m)"
  shows "(length m = 0 \<longrightarrow>
            LogCreate_validate dtv (JObj fs) = Inl [([''body'', ''message''], string_too_short)]) \<and>
         (length m = 10001 \<longrightarrow>
            LogCreate_validate dtv (JObj fs) = Inl [([''body'', ''message''], string_too_long)]) \<and>
         (length m = 1 \<or> length m = 10000 \<longrightarrow>
            LogCreate_validate dtv (JObj fs) =
              Inr \<lparr>timestamp = t, source = s, level = l, message = m, metadata = d\<rparr>)"
proof (intro conjI impI)
  assume "length m = 0"
  then have "field_message fs = Inl string_too_short"
    using assms(5) by (simp add: field_message_JStr)
  with assms show "LogCreate_validate dtv (JObj fs) = Inl [([''body'', ''message''], string_too_short)]"
    by (simp add: LogCreate_validate_message_error)
next
  assume "length m = 10001"
  then have "field_message fs = Inl string_too_long"
    using assms(5) by (simp add: field_message_JStr)
  with assms show "LogCreate_validate dtv (JObj fs) = Inl [([''body'', ''message''], string_too_long)]"
    by (simp add: LogCreate_validate_message_error)
next
  assume "length m = 1 \<or> length m = 10000"
  then have "field_message fs = Inr m"
    using assms(5) by (auto simp: field_message_JStr)
  with assms show "LogCreate_validate dtv (JObj fs) =
              Inr \<lparr>timestamp = t, source = s, level = l, message = m, metadata = d\<rparr>"
    by (simp add: LogCreate_validate_valid)
qed

theorem message_length_boundaries_witness:
  "LogCreate_validate iso_datetime (JObj (with_message [])) =
     Inl [([''body'', ''message''], string_too_short)] \<and>
   LogCreate_validate iso_datetime (JObj (with_message (replicate 10001 (CHR ''x'')))) =
     Inl [([''body'', ''message''], string_too_long)] \<and>
   LogCreate_validate iso_datetime (JObj (with_message ''x'')) =
     Inr \<lparr>timestamp = example_timestamp, source = ''web-api'', level = ''ERROR'',
          message = ''x'', metadata = Some []\<rparr> \<and>
   LogCreate_validate iso_datetime (JObj (with_message (replicate 10000 (CHR ''x'')))) =
     Inr \<lparr>timestamp = example_timestamp, source = ''web-api'', level = ''ERROR'',
          message = replicate 10000 (CHR ''x''), metadata = Some []\<rparr>"
  using message_length_boundaries [OF with_message_fields, of "[]"]
    message_length_boundaries [OF with_message_fields, of "replicate 10001 (CHR ''x'')"]
    message_length_boundaries [OF with_message_fields, of "''x''"]
    message_length_boundaries [OF with_message_fields, of "replicate 10000 (CHR ''x'')"]
  by simp

text \<open>
  C9, as the code has it. A request without \<^verbatim>\<open>metadata\<close> whose other fields are valid
  is accepted with the empty dict as its metadata; one whose metadata is \<^verbatim>\<open>null\<close> is
  accepted with \<^verbatim>\<open>None\<close>; a request whose metadata is present and is neither an
  object nor \<^verbatim>\<open>null\<close> is rejected with an error at that field.
\<close>

theorem metadata_default_and_shape:
  "(field_timestamp dtv fs = Inr t \<and> field_source fs = Inr s \<and> field_level fs = Inr l \<and>
    field_message fs = Inr m \<and> map_of fs ''metadata'' = None \<longrightarrow>
      LogCreate_validate dtv (JObj fs) =
        Inr \<lparr>timestamp = t, source = s, level = l, message = m, metadata = Some []\<rparr>) \<and>
   (field_timestamp dtv fs = Inr t \<and> field_source fs = Inr s \<and> field_level fs = Inr l \<and>
    field_message fs = Inr m \<and> map_of fs ''metadata'' = Some JNull \<longrightarrow>
      LogCreate_validate dtv (JObj fs) =
        Inr \<lparr>timestamp = t, source = s, level = l, message = m, metadata = None\<rparr>) \<and>
   (map_of fs ''metadata'' = Some v \<and>
    (case v of JNull \<Rightarrow> False | JObj kvs \<Rightarrow> False | _ \<Rightarrow> True) \<longrightarrow>
      (\<exists>errors. LogCreate_validate dtv (JObj fs) =
                  Inl (errors @ [([''body'', ''metadata''], dict_type)])))"
proof (intro conjI impI)
  assume a: "field_timestamp dtv fs = Inr t \<and> field_source fs = Inr s \<and> field_level fs = Inr l \<and>
    field_message fs = Inr m \<and> map_of fs ''metadata'' = None"
  then have "field_metadata fs = Inr (Some [])"
    by (simp add: field_metadata_Inr)
  with a show "LogCreate_validate dtv (JObj fs) =
        Inr \<lparr>timestamp = t, source = s, level = l, message = m, metadata = Some []\<rparr>"
    by (simp add: LogCreate_validate_valid)
next
  assume a: "field_timestamp dtv fs = Inr t \<and> field_source fs = Inr s \<and> field_level fs = Inr l \<and>
    field_message fs = Inr m \<and> map_of fs ''metadata'' = Some JNull"
  then have "field_metadata fs = Inr None"
    by (simp add: field_metadata_Inr)
  with a show "LogCreate_validate dtv (JObj fs) =
        Inr \<lparr>timestamp = t, source = s, level = l, message = m, metadata = None\<rparr>"
    by (simp add: LogCreate_validate_valid)
next
  assume a: "map_of fs ''metadata'' = Some v \<and>
    (case v of JNull \<Rightarrow> False | JObj kvs \<Rightarrow> False | _ \<Rightarrow> True)"
  then have "field_metadata fs = Inl dict_type"
    by (cases v) (simp_all add: field_metadata_def validate_optional_dict_def)
  then show "\<exists>errors. LogCreate_validate dtv (JObj fs) =
                  Inl (errors @ [([''body'', ''metadata''], dict_type)])"
    by (rule LogCreate_validate_metadata_error)
qed

theorem metadata_default_and_shape_witness:
  "LogCreate_validate iso_datetime (JObj (with_message ''x'')) =
     Inr \<lparr>timestamp = example_timestamp, source = ''web-api'', level = ''ERROR'',
          message = ''x'', metadata = Some []\<rparr> \<and>
   LogCreate_validate iso_datetime (JObj (with_message ''x'' @ [(''metadata'', JNull)])) =
     Inr \<lparr>timestamp = example_timestamp, source = ''web-api'', level = ''ERROR'',
          message = ''x'', metadata = None\<rparr> \<and>
   (\<exists>errors. LogCreate_validate iso_datetime (JObj [(''metadata'', JArr [])]) =
      Inl (errors @ [([''body'', ''metadata''], dict_type)]))"
  using metadata_default_and_shape [of iso_datetime "with_message ''x''" example_timestamp
      "''web-api''" "''ERROR''" "''x''"]
    metadata_default_and_shape [of iso_datetime "with_message ''x'' @ [(''metadata'', JNull)]"
      example_timestamp "''web-api''" "''ERROR''" "''x''"]
    metadata_default_and_shape [where fs = "[(''metadata'', JArr [])]" and v = "JArr []"
      and dtv = iso_datetime]
    with_message_fields [of "''x''"]
  by (simp add: field_message_Inr field_timestamp_Inr field_source_Inr field_level_Inr
      with_message_def iso_datetime_example)

text \<open>
  C9 as written has \<^verbatim>\<open>null\<close> rejected. The field is declared \<^verbatim>\<open>Optional\<close>, and
  the example request with \<^verbatim>\<open>"metadata": null\<close> is accepted.
\<close>

theorem metadata_null_accepted:
  "LogCreate_validate iso_datetime
     (JObj [(''timestamp'', JStr ''2025-12-11T10:30:00Z''),
            (''source'', JStr ''web-api''),
            (''level'', JStr ''ERROR''),
            (''message'', JStr ''Database connection timeout''),
            (''metadata'', JNull)]) =
   Inr \<lparr>timestamp = \<lparr>year = 2025, month = 12, day = 11, hour = 10, minute = 30,
                       second = 0, microsecond = 0, tzinfo = Some 0\<rparr>,
        source = ''web-api'', level = ''ERROR'',
        message = ''Database connection timeout'', metadata = None\<rparr>"
  by code_simp

subsection \<open>The health check\<close>

text \<open>
  C8, as the code has it. \<^verbatim>\<open>GET /health\<close> answers status 200 in every state, with
  the entries \<^verbatim>\<open>status\<close>, \<^verbatim>\<open>service\<close>, \<^verbatim>\<open>version\<close> and \<^verbatim>\<open>kafka\<close>; the last is
  \<^verbatim>\<open>connected\<close> when there is a producer and \<^verbatim>\<open>disconnected\<close> otherwise.
\<close>

theorem health_body:
  "get_health settings st =
     \<lparr>status_code = 200,
      content = JSON (JObj
        [(''status'', JStr ''healthy''),
         (''service'', JStr (app_name settings)),
         (''version'', JStr (app_version settings)),
         (''kafka'', JStr (if kafka_producer st = None then ''disconnected'' else ''connected''))])\<rparr>"
  by (simp add: get_health_def health_check_def)

text \<open>
  C8 as written names the fourth entry \<^verbatim>\<open>broker\<close>. The body has no entry of that
  name.
\<close>

theorem health_no_broker_field:
  "get_health default_settings disconnected =
     \<lparr>status_code = 200,
      content = JSON (JObj
        [(''status'', JStr ''healthy''),
         (''service'', JStr ''NetSentinel Ingestor''),
         (''version'', JStr ''1.0.0''),
         (''kafka'', JStr ''disconnected'')])\<rparr> \<and>
   map_of (health_check default_settings disconnected) ''broker'' \<noteq> Some (JStr ''disconnected'')"
  by (simp add: get_health_def health_check_def default_settings_def disconnected_def)


end
